theory Spec2Isabelle
  imports Complex_Main
begin

section \<open>The graph built by \<open>src/network.py\<close>\<close>

text \<open>
  \<open>network.py\<close> builds a TensorFlow graph and never runs it. The embedding therefore
  represents the graph itself: every call into the \<open>tf\<close> library is a constructor of a
  symbolic node, and each builder of the source is a function returning such nodes.
  Python's exceptions are values of type \<open>error\<close>; a builder that can raise returns
  \<open>error + 'a\<close> with \<open>Inl\<close> for the exception.

  The ambient contexts of the source (\<open>with tf.variable_scope(...)\<close> and
  \<open>with tf.device(...)\<close>) are explicit arguments \<open>scope\<close> and \<open>device\<close> of the
  parameter builders. Operation names given through \<open>name=\<close> and \<open>tf.name_scope\<close> are
  labels without effect on the graph's structure and are left out. The \<open>summaries\<close>
  collector is threaded only through the one builder that appends to it, \<open>_init_loss\<close>.
  A leading underscore of a Python name is dropped.
\<close>

subsection \<open>Data model\<close>

datatype error =
    RuntimeError string
  | AttributeError string
  | ValueError
  | NotImplementedError

text \<open>
  The configuration object. The fields \<open>momentum\<close> and \<open>rmsprop_decay\<close> exist only
  "if applicable"; \<open>None\<close> is an object without the attribute, whose read raises
  \<open>AttributeError\<close>.
\<close>

record config =
  network :: string
  optimizer :: string
  lr :: real
  momentum :: "real option"
  rmsprop_decay :: "real option"
  reg_param :: real
  sync :: bool
  task_id :: int
  disable_target_replication :: bool

datatype initializer =
    truncated_normal_initializer real
  | constant_initializer real

text \<open>A variable made by \<open>tf.get_variable\<close> or \<open>tf.Variable\<close>.\<close>

record variable =
  var_name :: string
  var_shape :: "int list"
  var_initializer :: initializer
  var_collections :: "string list option"
  var_device :: "string option"
  var_trainable :: bool

datatype tensor =
    Placeholder string "int option list"
  | Var variable
  | Const real
  | MatMul tensor tensor
  | Add tensor tensor
  | Multiply tensor tensor
  | Tanh tensor
  | Relu tensor
  | Conv2d tensor tensor "int list" string
  | MaxPool tensor "int list" "int list" string
  | Reshape tensor "int list"
  | ReduceSum tensor "nat list"
  | ReduceMean tensor
  | SquaredDifference tensor tensor
  | L2Loss tensor

datatype optimizer =
    AdadeltaOptimizer real
  | AdagradOptimizer real
  | AdamOptimizer real
  | FtrlOptimizer real
  | GradientDescentOptimizer real
  | MomentumOptimizer real real
  | RMSPropOptimizer real real
  | SyncReplicasOptimizer optimizer int int

text \<open>
  \<open>Minimize opt loss var_list global_step\<close> is \<open>opt.minimize(loss, var_list, global_step)\<close>;
  \<open>Assign ref value\<close> is \<open>tf.assign(ref, value)\<close>.
\<close>

datatype operation =
    Minimize optimizer tensor "variable list" "variable option"
  | Assign variable tensor

datatype summary =
    ScalarSummary string tensor
  | MergeSummary "summary list"

datatype net_class = NetworkBase | SimpleNetwork | ConvNetwork

text \<open>
  An instance of \<open>Network\<close>. The handles are class attributes with default \<open>None\<close>
  that \<open>_init_network\<close> assigns.
\<close>

record network =
  cls :: net_class
  input_shape :: "int list"
  num_actions :: int
  num_replicas :: int
  ps_device :: "string option"
  worker_device :: "string option"
  x_placeholder :: "tensor option"
  q_placeholder :: "tensor option"
  action_placeholder :: "tensor option"
  q_output :: "tensor option"
  train_op :: "operation option"
  target_q_output :: "tensor option"
  target_update_ops :: "operation list option"
  summary_op :: "summary option"
  global_step :: "variable option"

subsection \<open>Variables\<close>

text \<open>The name of a variable created inside variable scope \<open>scope\<close> (\<open>''''\<close> is the root).\<close>

definition scoped :: "string \<Rightarrow> string \<Rightarrow> string" where
  "scoped scope name = (if scope = [] then name else scope @ ''/'' @ name)"

text \<open>\<open>tf.get_variable(name, shape, initializer=..., collections=...)\<close>; trainable by default.\<close>

definition get_variable ::
  "string \<Rightarrow> string option \<Rightarrow> string \<Rightarrow> int list \<Rightarrow> initializer \<Rightarrow> string list option \<Rightarrow> variable" where
  "get_variable scope device name shape init collections =
     \<lparr>var_name = scoped scope name, var_shape = shape, var_initializer = init,
      var_collections = collections, var_device = device, var_trainable = True\<rparr>"

definition LOCAL_VARIABLES :: string where
  "LOCAL_VARIABLES = ''local_variables''"

subsection \<open>SimpleNetwork\<close>

definition HIDDEN1_SIZE :: int where "HIDDEN1_SIZE = 20"
definition HIDDEN2_SIZE :: int where "HIDDEN2_SIZE = 20"

definition SimpleNetwork_init_params ::
  "config \<Rightarrow> int list \<Rightarrow> int \<Rightarrow> string list option \<Rightarrow> string \<Rightarrow> string option
     \<Rightarrow> error + variable list" where
  "SimpleNetwork_init_params config in_shape output_size collections scope device =
     (if length in_shape \<noteq> 1 then Inl (RuntimeError ''SimpleNetwork expects 1-d input'')
      else
        let input_size = in_shape ! 0;
            weight_init = truncated_normal_initializer (1 / 100);
            bias_init = constant_initializer 0;
            w1 = get_variable (scoped scope ''hidden1'') device ''w''
                   [input_size, HIDDEN1_SIZE] weight_init collections;
            b1 = get_variable (scoped scope ''hidden1'') device ''b''
                   [HIDDEN1_SIZE] bias_init collections;
            w2 = get_variable (scoped scope ''hidden2'') device ''w''
                   [HIDDEN1_SIZE, HIDDEN2_SIZE] weight_init collections;
            b2 = get_variable (scoped scope ''hidden2'') device ''b''
                   [HIDDEN2_SIZE] bias_init collections;
            w3 = get_variable (scoped scope ''output'') device ''w''
                   [HIDDEN2_SIZE, output_size] weight_init collections;
            b3 = get_variable (scoped scope ''output'') device ''b''
                   [output_size] bias_init collections
        in Inr [w1, b1, w2, b2, w3, b3])"

text \<open>
  Python's \<open>sum\<close> over the generator of \<open>tf.nn.l2_loss(w)\<close>: it starts from the
  integer \<open>0\<close> and adds from the left.
\<close>

definition l2_sum :: "variable list \<Rightarrow> tensor" where
  "l2_sum ws = foldl (\<lambda>acc w. Add acc (L2Loss (Var w))) (Const 0) ws"

fun SimpleNetwork_init_layers ::
  "config \<Rightarrow> tensor \<Rightarrow> variable list \<Rightarrow> error + (tensor \<times> tensor)" where
  "SimpleNetwork_init_layers config inputs [w1, b1, w2, b2, w3, b3] =
     (let a1 = Tanh (Add (MatMul inputs (Var w1)) (Var b1));
          a2 = Tanh (Add (MatMul a1 (Var w2)) (Var b2));
          output = Add (MatMul a2 (Var w3)) (Var b3);
          reg_loss = l2_sum [w1, w2, w3]
      in Inr (output, reg_loss))"
| "SimpleNetwork_init_layers config inputs params = Inl ValueError"

subsection \<open>ConvNetwork\<close>

definition CONV1_FILTERS :: int where "CONV1_FILTERS = 32"
definition CONV1_SIZE :: int where "CONV1_SIZE = 8"
definition CONV1_STRIDE :: int where "CONV1_STRIDE = 4"
definition CONV2_FILTERS :: int where "CONV2_FILTERS = 64"
definition CONV2_SIZE :: int where "CONV2_SIZE = 4"
definition CONV2_STRIDE :: int where "CONV2_STRIDE = 2"
definition CONV3_FILTERS :: int where "CONV3_FILTERS = 64"
definition CONV3_SIZE :: int where "CONV3_SIZE = 3"
definition CONV3_STRIDE :: int where "CONV3_STRIDE = 1"
definition POOL_SIZE :: "int list" where "POOL_SIZE = [1, 2, 2, 1]"
definition POOL_STRIDE :: "int list" where "POOL_STRIDE = [1, 2, 2, 1]"
definition FULLY_CONNECTED_SIZE :: int where "FULLY_CONNECTED_SIZE = 256"

text \<open>
  The message of the rank check is built from \<open>cls.__class__.__name__\<close>, which for a
  class object is \<open>type\<close>.
\<close>

definition ConvNetwork_init_params ::
  "config \<Rightarrow> int list \<Rightarrow> int \<Rightarrow> string list option \<Rightarrow> string \<Rightarrow> string option
     \<Rightarrow> error + variable list" where
  "ConvNetwork_init_params config in_shape output_size collections scope device =
     (if length in_shape \<noteq> 3 then Inl (RuntimeError ''type expects 3-d input'')
      else
        let weight_init = truncated_normal_initializer (1 / 100);
            bias_init = constant_initializer 0;
            w1 = get_variable (scoped scope ''conv1'') device ''w''
                   [CONV1_SIZE, CONV1_SIZE, in_shape ! 2, CONV1_FILTERS] weight_init collections;
            b1 = get_variable (scoped scope ''conv1'') device ''b''
                   [CONV1_FILTERS] bias_init collections;
            w2 = get_variable (scoped scope ''conv2'') device ''w''
                   [CONV2_SIZE, CONV2_SIZE, CONV1_FILTERS, CONV2_FILTERS] weight_init collections;
            b2 = get_variable (scoped scope ''conv2'') device ''b''
                   [CONV2_FILTERS] bias_init collections;
            w3 = get_variable (scoped scope ''conv3'') device ''w''
                   [CONV3_SIZE, CONV3_SIZE, CONV2_FILTERS, CONV3_FILTERS] weight_init collections;
            b3 = get_variable (scoped scope ''conv3'') device ''b''
                   [CONV3_FILTERS] bias_init collections;
            w4 = get_variable (scoped scope ''fcl'') device ''w''
                   [FULLY_CONNECTED_SIZE, FULLY_CONNECTED_SIZE] weight_init collections;
            b4 = get_variable (scoped scope ''fcl'') device ''b''
                   [FULLY_CONNECTED_SIZE] bias_init collections;
            w5 = get_variable (scoped scope ''output'') device ''w''
                   [FULLY_CONNECTED_SIZE, output_size] weight_init collections;
            b5 = get_variable (scoped scope ''output'') device ''b''
                   [output_size] bias_init collections
        in Inr [w1, b1, w2, b2, w3, b3, w4, b4, w5, b5])"

definition conv_stride :: "int \<Rightarrow> int list" where
  "conv_stride stride = [1, stride, stride, 1]"

definition max_pool :: "tensor \<Rightarrow> tensor" where
  "max_pool a = MaxPool a POOL_SIZE POOL_STRIDE ''SAME''"

definition conv_pool :: "tensor \<Rightarrow> variable \<Rightarrow> variable \<Rightarrow> int \<Rightarrow> tensor" where
  "conv_pool inputs filters bias stride =
     (let conv = Conv2d inputs (Var filters) (conv_stride stride) ''SAME''
      in max_pool (Relu (Add conv (Var bias))))"

fun ConvNetwork_init_layers ::
  "config \<Rightarrow> tensor \<Rightarrow> variable list \<Rightarrow> error + (tensor \<times> tensor)" where
  "ConvNetwork_init_layers config inputs [w1, b1, w2, b2, w3, b3, w4, b4, w5, b5] =
     (let a1 = conv_pool inputs w1 b1 CONV1_STRIDE;
          a2 = conv_pool a1 w2 b2 CONV2_STRIDE;
          a3 = conv_pool a2 w3 b3 CONV3_STRIDE;
          a3_flat = Reshape a3 [- 1, FULLY_CONNECTED_SIZE];
          a4 = Relu (Add (MatMul a3_flat (Var w4)) (Var b4));
          output = Add (MatMul a4 (Var w5)) (Var b5);
          reg_loss = l2_sum [w4, w5]
      in Inr (output, reg_loss))"
| "ConvNetwork_init_layers config inputs params = Inl ValueError"

subsection \<open>Network: the builders shared by both architectures\<close>

text \<open>Dispatch on the class; the base class raises \<open>NotImplementedError\<close>.\<close>

definition init_params ::
  "net_class \<Rightarrow> config \<Rightarrow> int list \<Rightarrow> int \<Rightarrow> string list option \<Rightarrow> string \<Rightarrow> string option
     \<Rightarrow> error + variable list" where
  "init_params c config in_shape output_size collections scope device =
     (case c of
        NetworkBase \<Rightarrow> Inl NotImplementedError
      | SimpleNetwork \<Rightarrow>
          SimpleNetwork_init_params config in_shape output_size collections scope device
      | ConvNetwork \<Rightarrow>
          ConvNetwork_init_params config in_shape output_size collections scope device)"

definition init_layers ::
  "net_class \<Rightarrow> config \<Rightarrow> tensor \<Rightarrow> variable list \<Rightarrow> error + (tensor \<times> tensor)" where
  "init_layers c config inputs params =
     (case c of
        NetworkBase \<Rightarrow> Inl NotImplementedError
      | SimpleNetwork \<Rightarrow> SimpleNetwork_init_layers config inputs params
      | ConvNetwork \<Rightarrow> ConvNetwork_init_layers config inputs params)"

text \<open>
  \<open>_init_loss\<close>. \<open>config.reg_param * reg_loss\<close> multiplies a Python float into a tensor;
  \<open>summaries.append\<close> is the returned, extended list.
\<close>

definition init_loss ::
  "config \<Rightarrow> tensor \<Rightarrow> tensor \<Rightarrow> tensor \<Rightarrow> tensor option \<Rightarrow> summary list option
     \<Rightarrow> tensor \<times> summary list option" where
  "init_loss config q expected_q actions reg_loss summaries =
     (let q_masked = ReduceSum (Multiply q actions) [1];
          loss = ReduceMean (SquaredDifference q_masked expected_q);
          loss = (case reg_loss of
                    None \<Rightarrow> loss
                  | Some r \<Rightarrow> Add loss (Multiply (Const (reg_param config)) r))
      in (loss, map_option (\<lambda>s. s @ [ScalarSummary ''loss'' loss]) summaries))"

text \<open>
  \<open>_init_optimizer\<close>. The dictionary literal is evaluated before the lookup, and with it
  \<open>config.momentum\<close> and \<open>config.rmsprop_decay\<close>, in this order.
\<close>

definition optimizer_table :: "real \<Rightarrow> real \<Rightarrow> (string \<times> (real \<Rightarrow> optimizer)) list" where
  "optimizer_table m d =
     [(''adadelta'', AdadeltaOptimizer),
      (''adagrad'', AdagradOptimizer),
      (''adam'', AdamOptimizer),
      (''ftrl'', FtrlOptimizer),
      (''sgd'', GradientDescentOptimizer),
      (''momentum'', \<lambda>learning_rate. MomentumOptimizer learning_rate m),
      (''rmsprop'', \<lambda>learning_rate. RMSPropOptimizer learning_rate d)]"

definition init_optimizer ::
  "config \<Rightarrow> variable list \<Rightarrow> tensor \<Rightarrow> int \<Rightarrow> variable option \<Rightarrow> error + operation" where
  "init_optimizer config params loss n_replicas g_step =
     (case momentum config of
        None \<Rightarrow> Inl (AttributeError ''momentum'')
      | Some m \<Rightarrow>
     (case rmsprop_decay config of
        None \<Rightarrow> Inl (AttributeError ''rmsprop_decay'')
      | Some d \<Rightarrow>
     (case map_of (optimizer_table m d) (optimizer config) of
        None \<Rightarrow> Inl (RuntimeError (''Unsupported optimizer '' @ optimizer config))
      | Some Optimizer \<Rightarrow>
          let opt = Optimizer (lr config);
              opt = (if sync config
                     then SyncReplicasOptimizer opt n_replicas (task_id config)
                     else opt)
          in Inr (Minimize opt loss params g_step))))"

text \<open>\<open>_init_target_network\<close>; \<open>zip\<close> stops at the shorter sequence.\<close>

definition init_target_network ::
  "net_class \<Rightarrow> config \<Rightarrow> tensor \<Rightarrow> int list \<Rightarrow> int \<Rightarrow> variable list
     \<Rightarrow> string option \<Rightarrow> string option \<Rightarrow> error + (tensor \<times> operation list)" where
  "init_target_network c config inputs in_shape output_size params ps_dev worker_dev =
     (let (target_param_device, collections) =
            (if \<not> disable_target_replication config
             then (worker_dev, [LOCAL_VARIABLES])
             else (ps_dev, []))
      in case init_params c config in_shape output_size (Some collections)
                ''target'' target_param_device of
           Inl e \<Rightarrow> Inl e
         | Inr target_params \<Rightarrow>
             (case init_layers c config inputs target_params of
                Inl e \<Rightarrow> Inl e
              | Inr (target_q, _) \<Rightarrow>
                  Inr (target_q,
                       map (\<lambda>(target_p, p). Assign target_p (Var p))
                         (zip target_params params))))"

text \<open>\<open>tf.Variable(0, name='global_step', trainable=False)\<close>.\<close>

definition global_step_variable :: variable where
  "global_step_variable =
     \<lparr>var_name = ''global_step'', var_shape = [], var_initializer = constant_initializer 0,
      var_collections = None, var_device = None, var_trainable = False\<rparr>"

text \<open>
  \<open>_init_network\<close>. The three placeholders carry the names TensorFlow gives to unnamed
  placeholders in creation order. An exception leaves the half-initialised object
  behind; the caller never sees it, so only the error is returned.
\<close>

definition init_network :: "config \<Rightarrow> network \<Rightarrow> error + network" where
  "init_network config self =
     (let x_ph = Placeholder ''Placeholder'' (None # map Some (input_shape self));
          q_ph = Placeholder ''Placeholder_1'' [None];
          a_ph = Placeholder ''Placeholder_2'' [None, Some (num_actions self)];
          summaries = []
      in case init_params (cls self) config (input_shape self) (num_actions self) None
                [] (ps_device self) of
           Inl e \<Rightarrow> Inl e
         | Inr params \<Rightarrow>
        (case init_layers (cls self) config x_ph params of
           Inl e \<Rightarrow> Inl e
         | Inr (q_out, reg_loss) \<Rightarrow>
        (let g_step = global_step_variable;
             (loss, summaries) =
               init_loss config q_out q_ph a_ph (Some reg_loss) (Some summaries)
         in case init_optimizer config params loss (num_replicas self) (Some g_step) of
           Inl e \<Rightarrow> Inl e
         | Inr train \<Rightarrow>
        (case init_target_network (cls self) config x_ph (input_shape self)
                (num_actions self) params (ps_device self) (worker_device self) of
           Inl e \<Rightarrow> Inl e
         | Inr (target_q, update_ops) \<Rightarrow>
             Inr (self\<lparr>x_placeholder := Some x_ph,
                       q_placeholder := Some q_ph,
                       action_placeholder := Some a_ph,
                       q_output := Some q_out,
                       train_op := Some train,
                       target_q_output := Some target_q,
                       target_update_ops := Some update_ops,
                       summary_op := (case summaries of
                                        None \<Rightarrow> None
                                      | Some [] \<Rightarrow> None
                                      | Some ss \<Rightarrow> Some (MergeSummary ss)),
                       global_step := Some g_step\<rparr>)))))"

text \<open>\<open>Network.__init__\<close>, for an instance of class \<open>c\<close>.\<close>

definition Network_init ::
  "net_class \<Rightarrow> int list \<Rightarrow> int \<Rightarrow> int \<Rightarrow> string option \<Rightarrow> string option \<Rightarrow> network" where
  "Network_init c in_shape n_actions n_replicas ps_dev worker_dev =
     \<lparr>cls = c, input_shape = in_shape, num_actions = n_actions, num_replicas = n_replicas,
      ps_device = ps_dev, worker_device = worker_dev,
      x_placeholder = None, q_placeholder = None, action_placeholder = None,
      q_output = None, train_op = None, target_q_output = None,
      target_update_ops = None, summary_op = None, global_step = None\<rparr>"

text \<open>\<open>Network.create_network\<close>, the factory.\<close>

definition create_network ::
  "config \<Rightarrow> int list \<Rightarrow> int \<Rightarrow> int \<Rightarrow> string option \<Rightarrow> string option \<Rightarrow> error + network" where
  "create_network config in_shape n_actions n_replicas ps_dev worker_dev =
     (case map_of [(''simple'', SimpleNetwork), (''cnn'', ConvNetwork)] (network config) of
        None \<Rightarrow> Inl (RuntimeError (''Unsupported network type '' @ network config))
      | Some Net \<Rightarrow>
          init_network config
            (Network_init Net in_shape n_actions n_replicas ps_dev worker_dev))"

subsection \<open>Reading the assembled graph\<close>

text \<open>The placeholder nodes a tensor depends on.\<close>

primrec placeholders :: "tensor \<Rightarrow> tensor set" where
  "placeholders (Placeholder n s) = {Placeholder n s}"
| "placeholders (Var v) = {}"
| "placeholders (Const c) = {}"
| "placeholders (MatMul a b) = placeholders a \<union> placeholders b"
| "placeholders (Add a b) = placeholders a \<union> placeholders b"
| "placeholders (Multiply a b) = placeholders a \<union> placeholders b"
| "placeholders (Tanh a) = placeholders a"
| "placeholders (Relu a) = placeholders a"
| "placeholders (Conv2d a b s p) = placeholders a \<union> placeholders b"
| "placeholders (MaxPool a k s p) = placeholders a"
| "placeholders (Reshape a s) = placeholders a"
| "placeholders (ReduceSum a ax) = placeholders a"
| "placeholders (ReduceMean a) = placeholders a"
| "placeholders (SquaredDifference a b) = placeholders a \<union> placeholders b"
| "placeholders (L2Loss a) = placeholders a"

text \<open>
  \<open>params\<close> and \<open>target_params\<close> are locals of the source. They are read back from the
  handles the network keeps: the online parameters are the \<open>var_list\<close> of the training
  operation, the target parameters are the references the update operations assign to.
\<close>

fun minimized_vars :: "operation \<Rightarrow> variable list" where
  "minimized_vars (Minimize opt loss var_list g) = var_list"
| "minimized_vars (Assign r v) = []"

fun assigned_ref :: "operation \<Rightarrow> variable list" where
  "assigned_ref (Assign r v) = [r]"
| "assigned_ref (Minimize opt loss var_list g) = []"

definition online_params :: "network \<Rightarrow> variable list" where
  "online_params net = (case train_op net of None \<Rightarrow> [] | Some t \<Rightarrow> minimized_vars t)"

definition target_params :: "network \<Rightarrow> variable list" where
  "target_params net =
     (case target_update_ops net of
        None \<Rightarrow> []
      | Some ops \<Rightarrow> concat (map assigned_ref ops))"

definition update_ops :: "network \<Rightarrow> operation list" where
  "update_ops net = (case target_update_ops net of None \<Rightarrow> [] | Some ops \<Rightarrow> ops)"

text \<open>
  The (weight, bias) pairs of a parameter sequence \<open>(w1, b1, w2, b2, ...)\<close>.
\<close>

fun param_pairs :: "variable list \<Rightarrow> (variable \<times> variable) list" where
  "param_pairs (w # b # rest) = (w, b) # param_pairs rest"
| "param_pairs rest = []"

subsection \<open>Values of the loss and penalty nodes\<close>

text \<open>
  The nodes of the loss and of the regularisation penalty are given their TensorFlow
  meaning over the reals, for tensors of rank at most two. \<open>feed\<close> gives the values fed
  to placeholders, \<open>store\<close> the current values of variables, both by name. \<open>None\<close> is
  "no value in this model": an operand without value, operand shapes other than equal
  shapes or a scalar against anything, or a node of the layers (\<open>MatMul\<close>, \<open>Tanh\<close>,
  \<open>Relu\<close>, \<open>Conv2d\<close>, \<open>MaxPool\<close>, \<open>Reshape\<close>), which no property below evaluates.
  \<open>tf.nn.l2_loss(t)\<close> is \<open>sum(t ** 2) / 2\<close>.
\<close>

datatype val = Scalar real | Vector "real list" | Matrix "real list list"

fun elementwise :: "(real \<Rightarrow> real \<Rightarrow> real) \<Rightarrow> val \<Rightarrow> val \<Rightarrow> val option" where
  "elementwise f (Scalar a) (Scalar b) = Some (Scalar (f a b))"
| "elementwise f (Scalar a) (Vector ys) = Some (Vector (map (f a) ys))"
| "elementwise f (Scalar a) (Matrix yss) = Some (Matrix (map (map (f a)) yss))"
| "elementwise f (Vector xs) (Scalar b) = Some (Vector (map (\<lambda>x. f x b) xs))"
| "elementwise f (Matrix xss) (Scalar b) = Some (Matrix (map (map (\<lambda>x. f x b)) xss))"
| "elementwise f (Vector xs) (Vector ys) =
     (if length xs = length ys then Some (Vector (map2 f xs ys)) else None)"
| "elementwise f (Matrix xss) (Matrix yss) =
     (if map length xss = map length yss then Some (Matrix (map2 (map2 f) xss yss)) else None)"
| "elementwise f (Vector xs) (Matrix yss) = None"
| "elementwise f (Matrix xss) (Vector ys) = None"

fun entries :: "val \<Rightarrow> real list" where
  "entries (Scalar x) = [x]"
| "entries (Vector xs) = xs"
| "entries (Matrix xss) = concat xss"

fun reduce_sum :: "val \<Rightarrow> nat list \<Rightarrow> val option" where
  "reduce_sum (Matrix xss) axes = (if axes = [1] then Some (Vector (map sum_list xss)) else None)"
| "reduce_sum (Vector xs) axes = (if axes = [0] then Some (Scalar (sum_list xs)) else None)"
| "reduce_sum (Scalar x) axes = (if axes = [] then Some (Scalar x) else None)"

definition reduce_mean :: "val \<Rightarrow> val option" where
  "reduce_mean v =
     (if entries v = [] then None
      else Some (Scalar (sum_list (entries v) / real (length (entries v)))))"

definition l2_loss :: "val \<Rightarrow> val" where
  "l2_loss v = Scalar (sum_list (map (\<lambda>x. x ^ 2) (entries v)) / 2)"

definition lift2 ::
  "(val \<Rightarrow> val \<Rightarrow> val option) \<Rightarrow> val option \<Rightarrow> val option \<Rightarrow> val option" where
  "lift2 f a b =
     (case a of None \<Rightarrow> None | Some x \<Rightarrow> (case b of None \<Rightarrow> None | Some y \<Rightarrow> f x y))"

fun eval :: "(string \<Rightarrow> val option) \<Rightarrow> (string \<Rightarrow> val option) \<Rightarrow> tensor \<Rightarrow> val option" where
  "eval feed store (Placeholder n s) = feed n"
| "eval feed store (Var v) = store (var_name v)"
| "eval feed store (Const c) = Some (Scalar c)"
| "eval feed store (Add a b) = lift2 (elementwise (+)) (eval feed store a) (eval feed store b)"
| "eval feed store (Multiply a b) = lift2 (elementwise (*)) (eval feed store a) (eval feed store b)"
| "eval feed store (SquaredDifference a b) =
     lift2 (elementwise (\<lambda>x y. (x - y) ^ 2)) (eval feed store a) (eval feed store b)"
| "eval feed store (ReduceSum a axes) =
     (case eval feed store a of None \<Rightarrow> None | Some v \<Rightarrow> reduce_sum v axes)"
| "eval feed store (ReduceMean a) =
     (case eval feed store a of None \<Rightarrow> None | Some v \<Rightarrow> reduce_mean v)"
| "eval feed store (L2Loss a) = map_option l2_loss (eval feed store a)"
| "eval feed store (MatMul a b) = None"
| "eval feed store (Tanh a) = None"
| "eval feed store (Relu a) = None"
| "eval feed store (Conv2d a b s p) = None"
| "eval feed store (MaxPool a k s p) = None"
| "eval feed store (Reshape a s) = None"

text \<open>
  The penalty as the layer builder of class \<open>c\<close> returns it for the parameters the
  parameter builder makes, as in steps two and three of \<open>_init_network\<close>.
\<close>

definition built_penalty :: "net_class \<Rightarrow> config \<Rightarrow> int list \<Rightarrow> int \<Rightarrow> tensor option" where
  "built_penalty c config in_shape output_size =
     (case init_params c config in_shape output_size None [] None of
        Inl e \<Rightarrow> None
      | Inr params \<Rightarrow>
          (case init_layers c config
                  (Placeholder ''Placeholder'' (None # map Some in_shape)) params of
             Inl e \<Rightarrow> None
           | Inr (q_out, reg_loss) \<Rightarrow> Some reg_loss))"

text \<open>
  The L2 norm of a weight matrix, as the specification words the penalty: the square
  root of the sum of the squared entries.
\<close>

definition spec_l2_norm :: "real list list \<Rightarrow> real" where
  "spec_l2_norm w = sqrt (sum_list (map (\<lambda>x. x ^ 2) (concat w)))"

subsection \<open>Example configurations\<close>

definition example_simple_config :: config where
  "example_simple_config =
     \<lparr>network = ''simple'', optimizer = ''sgd'', lr = 1 / 1000,
      momentum = Some (9 / 10), rmsprop_decay = Some (9 / 10), reg_param = 0,
      sync = False, task_id = 0, disable_target_replication = False\<rparr>"

definition example_cnn_config :: config where
  "example_cnn_config =
     \<lparr>network = ''cnn'', optimizer = ''rmsprop'', lr = 1 / 1000,
      momentum = Some (9 / 10), rmsprop_decay = Some (9 / 10), reg_param = 1 / 100,
      sync = True, task_id = 0, disable_target_replication = True\<rparr>"

text \<open>
  The number of update operations and of online (weight, bias) pairs of a build;
  \<open>None\<close> when the factory raised.
\<close>

definition update_op_count :: "error + network \<Rightarrow> nat option" where
  "update_op_count r = (case r of Inl e \<Rightarrow> None | Inr net \<Rightarrow> Some (length (update_ops net)))"

definition online_pair_count :: "error + network \<Rightarrow> nat option" where
  "online_pair_count r =
     (case r of Inl e \<Rightarrow> None | Inr net \<Rightarrow> Some (length (param_pairs (online_params net))))"

text \<open>The keys of the optimizer dictionary of \<open>_init_optimizer\<close>.\<close>

definition supported_optimizers :: "string list" where
  "supported_optimizers =
     [''adadelta'', ''adagrad'', ''adam'', ''ftrl'', ''sgd'', ''momentum'', ''rmsprop'']"

text \<open>A feed for the loss scenario: output, action mask and expected value.\<close>

definition example_feed :: "string \<Rightarrow> val option" where
  "example_feed =
     map_of [(''q'', Matrix [[1, 2]]), (''actions'', Matrix [[0, 1]]),
             (''expected_q'', Vector [3 / 2])]"

text \<open>The value of \<open>tf.nn.l2_loss\<close> on a matrix: half the sum of its squared entries.\<close>

definition half_sum_squares :: "real list list \<Rightarrow> real" where
  "half_sum_squares w = sum_list (map (\<lambda>x. x ^ 2) (concat w)) / 2"

text \<open>
  Example weights, of the shapes the parameter builders declare for one action (and,
  for the simple variant, input shape \<open>[1]\<close>): all entries are zero but one entry \<open>1\<close>
  in the first matrix.
\<close>

definition example_simple_store :: "string \<Rightarrow> val option" where
  "example_simple_store =
     map_of [(''hidden1/w'', Matrix [1 # replicate 19 0]),
             (''hidden2/w'', Matrix (replicate 20 (replicate 20 0))),
             (''output/w'', Matrix (replicate 20 [0]))]"


section \<open>Properties\<close>

subsection \<open>What a successful build went through\<close>

lemma create_network_Inr_cases:
  assumes "create_network config s n r ps w = Inr net"
  shows "network config = ''simple'' \<and>
           init_network config (Network_init SimpleNetwork s n r ps w) = Inr net
       \<or> network config = ''cnn'' \<and>
           init_network config (Network_init ConvNetwork s n r ps w) = Inr net"
  using assms by (auto simp: create_network_def split: if_splits)

lemma init_optimizer_var_list:
  "init_optimizer config params loss n g = Inr t \<Longrightarrow> minimized_vars t = params"
  by (auto simp: init_optimizer_def Let_def split: option.splits)

lemma init_params_length:
  "init_params c config s k coll scope dev = Inr ps \<Longrightarrow>
     length ps = (case c of SimpleNetwork \<Rightarrow> 6 | ConvNetwork \<Rightarrow> 10 | NetworkBase \<Rightarrow> 0)"
  by (cases c)
    (auto simp: init_params_def SimpleNetwork_init_params_def ConvNetwork_init_params_def
          Let_def split: if_splits)

lemma init_params_shapes:
  "init_params c config s k coll scope dev = Inr ps \<Longrightarrow>
   init_params c config s k coll' scope' dev' = Inr ps' \<Longrightarrow>
   map var_shape ps = map var_shape ps'"
  by (cases c)
    (auto simp: init_params_def SimpleNetwork_init_params_def ConvNetwork_init_params_def
          get_variable_def Let_def split: if_splits)

lemma init_params_names:
  "init_params c config s k coll [] dev = Inr ps \<Longrightarrow>
   init_params c config s k coll' ''target'' dev' = Inr ps' \<Longrightarrow>
   map var_name ps' = map (\<lambda>v. ''target/'' @ var_name v) ps"
  by (cases c)
    (auto simp: init_params_def SimpleNetwork_init_params_def ConvNetwork_init_params_def
          get_variable_def scoped_def Let_def split: if_splits)

lemma init_target_network_ops:
  "init_target_network c config x s k params ps w = Inr (tq, ops) \<Longrightarrow>
   \<exists>coll dev tps reg. init_params c config s k coll ''target'' dev = Inr tps
      \<and> init_layers c config x tps = Inr (tq, reg)
      \<and> ops = map (\<lambda>(target_p, p). Assign target_p (Var p)) (zip tps params)"
  unfolding init_target_network_def
  by (auto simp: Let_def split: if_splits sum.splits prod.splits)

lemma init_network_Inr:
  assumes "init_network config self = Inr net"
  shows "\<exists>params q reg loss train tq ops x.
     x = Placeholder ''Placeholder'' (None # map Some (input_shape self)) \<and>
     init_params (cls self) config (input_shape self) (num_actions self) None []
       (ps_device self) = Inr params \<and>
     init_layers (cls self) config x params = Inr (q, reg) \<and>
     init_optimizer config params loss (num_replicas self) (Some global_step_variable)
       = Inr train \<and>
     init_target_network (cls self) config x (input_shape self) (num_actions self) params
       (ps_device self) (worker_device self) = Inr (tq, ops) \<and>
     x_placeholder net = Some x \<and> q_output net = Some q \<and> train_op net = Some train \<and>
     target_q_output net = Some tq \<and> target_update_ops net = Some ops"
  using assms unfolding init_network_def
  by (auto simp: Let_def split: sum.splits prod.splits)

lemma assigned_ref_zip:
  "concat (map assigned_ref (map (\<lambda>(target_p, p). Assign target_p (Var p)) zs)) = map fst zs"
  by (induction zs) auto

lemma build_facts:
  assumes "create_network config s n r ps w = Inr net"
  shows "\<exists>c params tps q reg tq reg' coll dev x.
     (network config = ''simple'' \<and> c = SimpleNetwork \<or> network config = ''cnn'' \<and> c = ConvNetwork) \<and>
     x = Placeholder ''Placeholder'' (None # map Some s) \<and>
     init_params c config s n None [] ps = Inr params \<and>
     init_params c config s n coll ''target'' dev = Inr tps \<and>
     init_layers c config x params = Inr (q, reg) \<and>
     init_layers c config x tps = Inr (tq, reg') \<and>
     online_params net = params \<and> target_params net = tps \<and>
     update_ops net = map (\<lambda>(target_p, p). Assign target_p (Var p)) (zip tps params) \<and>
     x_placeholder net = Some x \<and> q_output net = Some q \<and> target_q_output net = Some tq"
proof -
  from create_network_Inr_cases [OF assms]
  obtain c where c: "network config = ''simple'' \<and> c = SimpleNetwork \<or> network config = ''cnn'' \<and> c = ConvNetwork"
    and built: "init_network config (Network_init c s n r ps w) = Inr net"
    by blast
  let ?self = "Network_init c s n r ps w"
  have sel: "cls ?self = c" "input_shape ?self = s" "num_actions ?self = n"
    "ps_device ?self = ps" "worker_device ?self = w" "num_replicas ?self = r"
    by (simp_all add: Network_init_def)
  from init_network_Inr [OF built, unfolded sel]
  obtain params q reg loss train tq ops where
    p: "init_params c config s n None [] ps = Inr params"
    and l: "init_layers c config (Placeholder ''Placeholder'' (None # map Some s)) params = Inr (q, reg)"
    and o: "init_optimizer config params loss r (Some global_step_variable) = Inr train"
    and t: "init_target_network c config (Placeholder ''Placeholder'' (None # map Some s)) s n params ps w = Inr (tq, ops)"
    and h: "x_placeholder net = Some (Placeholder ''Placeholder'' (None # map Some s))"
       "q_output net = Some q" "train_op net = Some train"
       "target_q_output net = Some tq" "target_update_ops net = Some ops"
    by blast
  from init_target_network_ops [OF t]
  obtain coll dev tps reg' where
    tp: "init_params c config s n coll ''target'' dev = Inr tps"
    and tl: "init_layers c config (Placeholder ''Placeholder'' (None # map Some s)) tps = Inr (tq, reg')"
    and ops: "ops = map (\<lambda>(target_p, p). Assign target_p (Var p)) (zip tps params)"
    by blast
  have len: "length tps = length params"
    using init_params_length [OF p] init_params_length [OF tp] by simp
  have on: "online_params net = params"
    using h(3) init_optimizer_var_list [OF o] by (simp add: online_params_def)
  have "concat (map assigned_ref ops) = map fst (zip tps params)"
    unfolding ops by (rule assigned_ref_zip)
  also have "\<dots> = tps"
    using len by simp
  finally have tg: "target_params net = tps"
    using h(5) by (simp add: target_params_def)
  have up: "update_ops net = map (\<lambda>(target_p, p). Assign target_p (Var p)) (zip tps params)"
    using h(5) ops by (simp add: update_ops_def)
  show ?thesis
    using c p tp l tl on tg up h(1,2,4) by blast
qed

subsection \<open>Online and target parameter sequences\<close>


lemma example_simple_builds:
  "\<exists>net. create_network example_simple_config [4] 2 1 None None = Inr net"
  by (simp add: create_network_def example_simple_config_def init_network_def Network_init_def
      init_params_def SimpleNetwork_init_params_def init_layers_def init_loss_def
      init_optimizer_def optimizer_table_def init_target_network_def Let_def)



lemma length_param_pairs: "length (param_pairs xs) = length xs div 2"
  by (induction xs rule: param_pairs.induct) simp_all

lemma init_layers_placeholders:
  "init_layers c config x ps = Inr (q, reg) \<Longrightarrow> placeholders q = placeholders x"
  by (cases c)
    (auto simp: init_layers_def Let_def conv_pool_def max_pool_def
          elim!: SimpleNetwork_init_layers.elims ConvNetwork_init_layers.elims)

subsection \<open>Target-update operations\<close>

text \<open>
  Claim C1, as stated: the number of target-update operations equals the number of
  online (weight, bias) pairs, three for the simple variant. The simple variant has
  three pairs and six update operations.
\<close>

theorem update_ops_count_counterexample:
  "update_op_count (create_network example_simple_config [4] 2 1 None None) = Some 6
   \<and> online_pair_count (create_network example_simple_config [4] 2 1 None None) = Some 3"
  by (simp add: update_op_count_def online_pair_count_def update_ops_def online_params_def
      create_network_def example_simple_config_def init_network_def Network_init_def
      init_params_def SimpleNetwork_init_params_def init_layers_def init_loss_def
      init_optimizer_def optimizer_table_def init_target_network_def Let_def)

lemma init_target_network_placement:
  "init_target_network c config x s k params ps w = Inr (tq, ops) \<Longrightarrow>
   \<exists>tps. init_params c config s k
            (Some (if disable_target_replication config then [] else [LOCAL_VARIABLES]))
            ''target'' (if disable_target_replication config then ps else w) = Inr tps
      \<and> ops = map (\<lambda>(target_p, p). Assign target_p (Var p)) (zip tps params)"
  unfolding init_target_network_def
  by (auto simp: Let_def split: if_splits sum.splits prod.splits)

lemma build_update_facts:
  assumes "create_network config s n r ps w = Inr net"
  shows "\<exists>c params tps.
     (network config = ''simple'' \<and> c = SimpleNetwork
        \<or> network config = ''cnn'' \<and> c = ConvNetwork) \<and>
     init_params c config s n None [] ps = Inr params \<and>
     init_params c config s n
       (Some (if disable_target_replication config then [] else [LOCAL_VARIABLES]))
       ''target'' (if disable_target_replication config then ps else w) = Inr tps \<and>
     online_params net = params \<and>
     target_update_ops net
       = Some (map (\<lambda>(target_p, p). Assign target_p (Var p)) (zip tps params))"
proof -
  from create_network_Inr_cases [OF assms]
  obtain c where c: "network config = ''simple'' \<and> c = SimpleNetwork
      \<or> network config = ''cnn'' \<and> c = ConvNetwork"
    and built: "init_network config (Network_init c s n r ps w) = Inr net"
    by blast
  let ?self = "Network_init c s n r ps w"
  have sel: "cls ?self = c" "input_shape ?self = s" "num_actions ?self = n"
    "ps_device ?self = ps" "worker_device ?self = w" "num_replicas ?self = r"
    by (simp_all add: Network_init_def)
  from init_network_Inr [OF built, unfolded sel]
  obtain params loss train tq ops where
    p: "init_params c config s n None [] ps = Inr params"
    and o: "init_optimizer config params loss r (Some global_step_variable) = Inr train"
    and t: "init_target_network c config (Placeholder ''Placeholder'' (None # map Some s))
              s n params ps w = Inr (tq, ops)"
    and h: "train_op net = Some train" "target_update_ops net = Some ops"
    by blast
  from init_target_network_placement [OF t]
  obtain tps where
    tp: "init_params c config s n
           (Some (if disable_target_replication config then [] else [LOCAL_VARIABLES]))
           ''target'' (if disable_target_replication config then ps else w) = Inr tps"
    and ops: "ops = map (\<lambda>(target_p, p). Assign target_p (Var p)) (zip tps params)"
    by blast
  have on: "online_params net = params"
    using h(1) init_optimizer_var_list [OF o] by (simp add: online_params_def)
  show ?thesis
    using c p tp on h(2) ops by blast
qed

text \<open>
  Claim C1, amended. Whenever the factory succeeds, there is exactly one update
  operation per online parameter tensor, weights and biases alike, in the order of the
  parameter sequence. With \<open>params\<close> the sequence the parameter builder returns at the
  root scope, which is the one the training operation minimises over, and \<open>tps\<close> the
  sequence the same builder returns under the scope \<open>target\<close>, on the device and in the
  collections of the replication policy, the update operations are
  \<open>tf.assign(tps[i], params[i])\<close> for every position \<open>i\<close>: each assigns the online
  parameter to the target variable of the same position, which bears the online
  variable's name under \<open>target/\<close> and has its shape. Their number is twice the number of
  (weight, bias) pairs, which is three for the simple and five for the convolutional
  variant.
\<close>

theorem one_update_op_per_parameter:
  assumes "create_network config s n r ps w = Inr net"
  shows "\<exists>c params tps.
       (network config = ''simple'' \<and> c = SimpleNetwork
          \<or> network config = ''cnn'' \<and> c = ConvNetwork)
     \<and> init_params c config s n None [] ps = Inr params
     \<and> init_params c config s n
         (Some (if disable_target_replication config then [] else [LOCAL_VARIABLES]))
         ''target'' (if disable_target_replication config then ps else w) = Inr tps
     \<and> online_params net = params
     \<and> target_params net = tps
     \<and> target_update_ops net
         = Some (map2 (\<lambda>target_p p. Assign target_p (Var p)) tps params)
     \<and> length tps = length params
     \<and> map var_name tps = map (\<lambda>p. ''target/'' @ var_name p) params
     \<and> map var_shape tps = map var_shape params
     \<and> length (update_ops net) = length params
     \<and> length (update_ops net) = 2 * length (param_pairs params)
     \<and> length (param_pairs params) = (if network config = ''simple'' then 3 else 5)"
proof -
  from build_update_facts [OF assms]
  obtain c params tps where
    c: "network config = ''simple'' \<and> c = SimpleNetwork
        \<or> network config = ''cnn'' \<and> c = ConvNetwork"
    and p: "init_params c config s n None [] ps = Inr params"
    and tp: "init_params c config s n
           (Some (if disable_target_replication config then [] else [LOCAL_VARIABLES]))
           ''target'' (if disable_target_replication config then ps else w) = Inr tps"
    and on: "online_params net = params"
    and ops: "target_update_ops net
           = Some (map (\<lambda>(target_p, p). Assign target_p (Var p)) (zip tps params))"
    by blast
  have len: "length params = (if network config = ''simple'' then 6 else 10)"
    using c init_params_length [OF p] by auto
  have tlen: "length tps = length params"
    using init_params_length [OF p] init_params_length [OF tp] by simp
  have names: "map var_name tps = map (\<lambda>p. ''target/'' @ var_name p) params"
    by (rule init_params_names [OF p tp])
  have shapes: "map var_shape tps = map var_shape params"
    by (rule init_params_shapes [OF tp p])
  have "concat (map assigned_ref (map (\<lambda>(target_p, p). Assign target_p (Var p)) (zip tps params)))
      = map fst (zip tps params)"
    by (rule assigned_ref_zip)
  also have "\<dots> = tps"
    using tlen by simp
  finally have tg: "target_params net = tps"
    using ops by (simp add: target_params_def)
  have count: "length (update_ops net) = length params"
    using ops tlen by (simp add: update_ops_def)
  have pairs: "length (param_pairs params) = (if network config = ''simple'' then 3 else 5)"
    using len by (simp add: length_param_pairs)
  have twice: "length (update_ops net) = 2 * length (param_pairs params)"
    using count len pairs by simp
  show ?thesis
    using c p tp on tg ops tlen names shapes count twice pairs by blast
qed

theorem one_update_op_per_parameter_witness:
  "\<exists>net params tps. create_network example_simple_config [4] 2 1 None None = Inr net
     \<and> init_params SimpleNetwork example_simple_config [4] 2 None [] None = Inr params
     \<and> init_params SimpleNetwork example_simple_config [4] 2 (Some [LOCAL_VARIABLES])
         ''target'' None = Inr tps
     \<and> online_params net = params
     \<and> target_update_ops net
         = Some (map2 (\<lambda>target_p p. Assign target_p (Var p)) tps params)
     \<and> map var_name params =
         [''hidden1/w'', ''hidden1/b'', ''hidden2/w'', ''hidden2/b'', ''output/w'', ''output/b'']
     \<and> map var_name tps =
         [''target/hidden1/w'', ''target/hidden1/b'', ''target/hidden2/w'',
          ''target/hidden2/b'', ''target/output/w'', ''target/output/b'']
     \<and> length (update_ops net) = 6
     \<and> length (param_pairs params) = 3"
proof -
  from example_simple_builds obtain net where
    b: "create_network example_simple_config [4] 2 1 None None = Inr net" ..
  have simple: "network example_simple_config = ''simple''"
    and repl: "\<not> disable_target_replication example_simple_config"
    by (simp_all add: example_simple_config_def)
  from one_update_op_per_parameter [OF b]
  obtain c params tps where
    c: "network example_simple_config = ''simple'' \<and> c = SimpleNetwork
        \<or> network example_simple_config = ''cnn'' \<and> c = ConvNetwork"
    and p: "init_params c example_simple_config [4] 2 None [] None = Inr params"
    and tp: "init_params c example_simple_config [4] 2
           (Some (if disable_target_replication example_simple_config then []
                  else [LOCAL_VARIABLES]))
           ''target''
           (if disable_target_replication example_simple_config then None else None) = Inr tps"
    and on: "online_params net = params"
    and ops: "target_update_ops net
           = Some (map2 (\<lambda>target_p p. Assign target_p (Var p)) tps params)"
    and count: "length (update_ops net) = length params"
    and pairs: "length (param_pairs params)
           = (if network example_simple_config = ''simple'' then 3 else 5)"
    by blast
  have cs: "c = SimpleNetwork"
    using c simple by auto
  have p': "init_params SimpleNetwork example_simple_config [4] 2 None [] None = Inr params"
    using p cs by simp
  have tp': "init_params SimpleNetwork example_simple_config [4] 2 (Some [LOCAL_VARIABLES])
         ''target'' None = Inr tps"
    using tp cs repl by simp
  have pn: "map var_name params =
         [''hidden1/w'', ''hidden1/b'', ''hidden2/w'', ''hidden2/b'', ''output/w'', ''output/b'']"
    using p' by (auto simp: init_params_def SimpleNetwork_init_params_def Let_def
        get_variable_def scoped_def)
  have tn: "map var_name tps =
         [''target/hidden1/w'', ''target/hidden1/b'', ''target/hidden2/w'',
          ''target/hidden2/b'', ''target/output/w'', ''target/output/b'']"
    using tp' by (auto simp: init_params_def SimpleNetwork_init_params_def Let_def
        get_variable_def scoped_def)
  have six: "length (update_ops net) = 6"
    using count arg_cong [OF pn, of length] by simp
  have three: "length (param_pairs params) = 3"
    using pairs simple by simp
  show ?thesis
    by (rule exI [of _ net], rule exI [of _ params], rule exI [of _ tps])
      (intro conjI b p' tp' on ops pn tn six three)
qed

subsection \<open>The shared observation placeholder\<close>

text \<open>
  Claim C10. Whenever the factory succeeds, the online output and the target output
  each depend on exactly one placeholder, and it is the same one: the network's
  observation placeholder \<open>x_placeholder\<close>. The network record has no other input
  placeholder for the target network.
\<close>

theorem outputs_share_input_placeholder:
  assumes "create_network config s n r ps w = Inr net"
  shows "\<exists>x q tq. x_placeholder net = Some x \<and> q_output net = Some q
           \<and> target_q_output net = Some tq
           \<and> placeholders q = {x} \<and> placeholders tq = {x}"
proof -
  from build_facts [OF assms]
  obtain c params tps q reg tq reg' where
    l: "init_layers c config (Placeholder ''Placeholder'' (None # map Some s)) params = Inr (q, reg)"
    and tl: "init_layers c config (Placeholder ''Placeholder'' (None # map Some s)) tps = Inr (tq, reg')"
    and h: "x_placeholder net = Some (Placeholder ''Placeholder'' (None # map Some s))"
       "q_output net = Some q" "target_q_output net = Some tq"
    by blast
  show ?thesis
    using h init_layers_placeholders [OF l] init_layers_placeholders [OF tl] by simp
qed

theorem outputs_share_input_placeholder_witness:
  "\<exists>net x q tq. create_network example_simple_config [4] 2 1 None None = Inr net
     \<and> x_placeholder net = Some x \<and> q_output net = Some q \<and> target_q_output net = Some tq
     \<and> placeholders q = {x} \<and> placeholders tq = {x}"
proof -
  from example_simple_builds obtain net where
    b: "create_network example_simple_config [4] 2 1 None None = Inr net" ..
  from outputs_share_input_placeholder [OF b] b show ?thesis by blast
qed

lemma optimizer_table_keys:
  "map fst (optimizer_table m d) = supported_optimizers"
  by (simp add: optimizer_table_def supported_optimizers_def)

lemma optimizer_lookup_None:
  "x \<notin> set supported_optimizers \<Longrightarrow> map_of (optimizer_table m d) x = None"
  by (simp add: optimizer_table_def supported_optimizers_def)

subsection \<open>The loss\<close>

text \<open>
  Claim C4. The loss is the mean of the squared difference between the expected value
  and the sum, over the action axis, of the elementwise product of output and action
  mask; a supplied penalty is added, multiplied by \<open>reg_param\<close>. For output
  \<open>[[1, 2]]\<close>, mask \<open>[[0, 1]]\<close> and expected value \<open>[1.5]\<close> its value is \<open>0.25\<close> without
  a penalty and \<open>0.25 + reg_param * p\<close> with a penalty of value \<open>p\<close>.
\<close>

theorem loss_builder:
  "fst (init_loss config q e a None s) =
     ReduceMean (SquaredDifference (ReduceSum (Multiply q a) [1]) e)
   \<and> fst (init_loss config q e a (Some r) s) =
     Add (ReduceMean (SquaredDifference (ReduceSum (Multiply q a) [1]) e))
         (Multiply (Const (reg_param config)) r)
   \<and> (eval feed store q = Some (Matrix [[1, 2]])
        \<and> eval feed store a = Some (Matrix [[0, 1]])
        \<and> eval feed store e = Some (Vector [3 / 2]) \<longrightarrow>
      eval feed store (fst (init_loss config q e a None s)) = Some (Scalar (1 / 4))
      \<and> (eval feed store r = Some (Scalar p) \<longrightarrow>
           eval feed store (fst (init_loss config q e a (Some r) s))
             = Some (Scalar (1 / 4 + reg_param config * p))))"
  by (simp add: init_loss_def Let_def lift2_def reduce_mean_def power2_eq_square)

theorem loss_builder_witness:
  "eval example_feed (\<lambda>v. None)
     (fst (init_loss example_cnn_config (Placeholder ''q'' [None, Some 2])
            (Placeholder ''expected_q'' [None]) (Placeholder ''actions'' [None, Some 2])
            None None)) = Some (Scalar (1 / 4))
   \<and> eval example_feed (\<lambda>v. None)
     (fst (init_loss example_cnn_config (Placeholder ''q'' [None, Some 2])
            (Placeholder ''expected_q'' [None]) (Placeholder ''actions'' [None, Some 2])
            (Some (Const 3)) None)) = Some (Scalar (7 / 25))"
proof -
  let ?q = "Placeholder ''q'' [None, Some 2]"
  let ?e = "Placeholder ''expected_q'' [None]"
  let ?a = "Placeholder ''actions'' [None, Some 2]"
  have fed: "eval example_feed (\<lambda>v. None) ?q = Some (Matrix [[1, 2]])
      \<and> eval example_feed (\<lambda>v. None) ?a = Some (Matrix [[0, 1]])
      \<and> eval example_feed (\<lambda>v. None) ?e = Some (Vector [3 / 2])"
    by (simp add: example_feed_def)
  have pen: "eval example_feed (\<lambda>v. None) (Const 3) = Some (Scalar 3)"
    by simp
  have "eval example_feed (\<lambda>v. None) (fst (init_loss example_cnn_config ?q ?e ?a None None))
          = Some (Scalar (1 / 4))
      \<and> eval example_feed (\<lambda>v. None)
          (fst (init_loss example_cnn_config ?q ?e ?a (Some (Const 3)) None))
          = Some (Scalar (1 / 4 + reg_param example_cnn_config * 3))"
    using loss_builder [where config = example_cnn_config and q = ?q and e = ?e and a = ?a
        and s = None and r = "Const 3" and feed = example_feed and store = "\<lambda>v. None"
        and p = 3] fed pen
    by blast
  moreover have "1 / 4 + reg_param example_cnn_config * 3 = 7 / 25"
    by (simp add: example_cnn_config_def)
  ultimately show ?thesis by simp
qed

subsection \<open>Unsupported selectors\<close>

text \<open>
  Claim C5, as stated: every configuration whose optimizer is not one of the seven names
  makes the optimizer builder raise the unsupported-optimizer error. A configuration
  with such a name and without a \<open>momentum\<close> field raises \<open>AttributeError\<close> instead,
  from the dictionary literal, before the lookup.
\<close>

theorem unsupported_optimizer_counterexample:
  "init_optimizer
     \<lparr>network = ''simple'', optimizer = ''nadam'', lr = 1 / 1000,
      momentum = None, rmsprop_decay = None, reg_param = 0,
      sync = False, task_id = 0, disable_target_replication = False\<rparr>
     [] (Const 0) 1 None = Inl (AttributeError ''momentum'')"
  by (simp add: init_optimizer_def)

text \<open>
  Claim C5, amended. A network name other than \<open>simple\<close> and \<open>cnn\<close> makes the factory
  raise the unsupported-type error, whatever the other arguments are: nothing else is
  computed first. An optimizer name outside the seven supported ones makes the optimizer
  builder raise the unsupported-optimizer error, whatever the parameters, loss, replica
  count and global step are, for every configuration that carries both the \<open>momentum\<close>
  and the \<open>rmsprop_decay\<close> field.
\<close>

theorem unsupported_selectors_rejected:
  "(network config \<notin> {''simple'', ''cnn''} \<longrightarrow>
      create_network config s n r ps w
        = Inl (RuntimeError (''Unsupported network type '' @ network config)))
   \<and> (optimizer config \<notin> set supported_optimizers
        \<and> momentum config = Some m \<and> rmsprop_decay config = Some d \<longrightarrow>
      init_optimizer config params loss nr g
        = Inl (RuntimeError (''Unsupported optimizer '' @ optimizer config)))"
  by (auto simp: create_network_def init_optimizer_def optimizer_lookup_None)

theorem unsupported_selectors_rejected_witness:
  "create_network (example_simple_config\<lparr>network := ''lstm''\<rparr>) [84, 84, 4] 2 1 None None
     = Inl (RuntimeError ''Unsupported network type lstm'')
   \<and> init_optimizer (example_simple_config\<lparr>optimizer := ''nadam''\<rparr>) [] (Const 0) 1 None
     = Inl (RuntimeError ''Unsupported optimizer nadam'')"
  using unsupported_selectors_rejected [where config = "example_simple_config\<lparr>network := ''lstm''\<rparr>"
      and s = "[84, 84, 4]" and n = 2 and r = 1 and ps = None and w = None]
    unsupported_selectors_rejected [where config = "example_simple_config\<lparr>optimizer := ''nadam''\<rparr>"
      and m = "9 / 10" and d = "9 / 10" and params = "[]" and loss = "Const 0" and nr = 1 and g = None]
  by (simp add: example_simple_config_def supported_optimizers_def)

subsection \<open>Rank checks\<close>

text \<open>
  Claim C6. Building the simple variant with an input shape whose rank is not 1 raises
  the shape error, and so does building the convolutional variant with an input shape
  whose rank is not 3; with the required rank the parameter builders return their
  parameters.
\<close>

theorem rank_checks:
  "(network config = ''simple'' \<and> length s \<noteq> 1 \<longrightarrow>
      create_network config s n r ps w
        = Inl (RuntimeError ''SimpleNetwork expects 1-d input''))
   \<and> (network config = ''cnn'' \<and> length s \<noteq> 3 \<longrightarrow>
      create_network config s n r ps w = Inl (RuntimeError ''type expects 3-d input''))
   \<and> (length s = 1 \<longrightarrow>
      (\<exists>params. SimpleNetwork_init_params config s n coll scope dev = Inr params))
   \<and> (length s = 3 \<longrightarrow>
      (\<exists>params. ConvNetwork_init_params config s n coll scope dev = Inr params))"
  by (simp add: create_network_def init_network_def Network_init_def init_params_def
      SimpleNetwork_init_params_def ConvNetwork_init_params_def Let_def)

theorem rank_checks_witness:
  "create_network example_simple_config [84, 84, 4] 2 1 None None
     = Inl (RuntimeError ''SimpleNetwork expects 1-d input'')
   \<and> create_network example_cnn_config [10] 2 1 None None
     = Inl (RuntimeError ''type expects 3-d input'')
   \<and> (\<exists>params. SimpleNetwork_init_params example_simple_config [10] 2 None [] None = Inr params)
   \<and> (\<exists>params. ConvNetwork_init_params example_cnn_config [84, 84, 4] 2 None [] None = Inr params)"
  using rank_checks [where config = example_simple_config and s = "[84, 84, 4]" and n = 2
      and r = 1 and ps = None and w = None]
    rank_checks [where config = example_cnn_config and s = "[10]" and n = 2
      and r = 1 and ps = None and w = None]
    rank_checks [where config = example_simple_config and s = "[10]" and n = 2
      and coll = None and scope = "[]" and dev = None]
    rank_checks [where config = example_cnn_config and s = "[84, 84, 4]" and n = 2
      and coll = None and scope = "[]" and dev = None]
  by (simp add: example_simple_config_def example_cnn_config_def)

subsection \<open>The momentum and decay fields\<close>

text \<open>
  Claim C7, as stated: with an optimizer other than \<open>momentum\<close> and \<open>rmsprop\<close>
  selected, construction succeeds without accessing the \<open>momentum\<close> and
  \<open>rmsprop_decay\<close> fields. With \<open>sgd\<close> selected and the fields absent, the builder
  raises \<open>AttributeError\<close>.
\<close>

theorem unused_fields_read_counterexample:
  "init_optimizer
     \<lparr>network = ''simple'', optimizer = ''sgd'', lr = 1 / 1000,
      momentum = None, rmsprop_decay = None, reg_param = 0,
      sync = False, task_id = 0, disable_target_replication = False\<rparr>
     [] (Const 0) 1 None = Inl (AttributeError ''momentum'')"
  by (simp add: init_optimizer_def)

text \<open>
  Claim C7, amended. For a configuration that carries both fields: with \<open>adadelta\<close>,
  \<open>adagrad\<close>, \<open>adam\<close>, \<open>ftrl\<close> or \<open>sgd\<close> selected, the builder succeeds and the
  training operation does not depend on the values of \<open>momentum\<close> and \<open>rmsprop_decay\<close>;
  with \<open>momentum\<close> selected it does not depend on the decay, with \<open>rmsprop\<close> selected
  not on the momentum. The builder reads both fields on every call: a configuration
  without one of them fails with \<open>AttributeError\<close>, whatever optimizer is selected.
\<close>

theorem momentum_and_decay_use:
  "(optimizer config \<in> {''adadelta'', ''adagrad'', ''adam'', ''ftrl'', ''sgd''} \<longrightarrow>
      init_optimizer (config\<lparr>momentum := Some m, rmsprop_decay := Some d\<rparr>) params loss nr g
        = init_optimizer (config\<lparr>momentum := Some m', rmsprop_decay := Some d'\<rparr>) params loss nr g
      \<and> (\<exists>t. init_optimizer (config\<lparr>momentum := Some m, rmsprop_decay := Some d\<rparr>)
                 params loss nr g = Inr t))
   \<and> (optimizer config = ''momentum'' \<longrightarrow>
      init_optimizer (config\<lparr>momentum := Some m, rmsprop_decay := Some d\<rparr>) params loss nr g
        = init_optimizer (config\<lparr>momentum := Some m, rmsprop_decay := Some d'\<rparr>) params loss nr g)
   \<and> (optimizer config = ''rmsprop'' \<longrightarrow>
      init_optimizer (config\<lparr>momentum := Some m, rmsprop_decay := Some d\<rparr>) params loss nr g
        = init_optimizer (config\<lparr>momentum := Some m', rmsprop_decay := Some d\<rparr>) params loss nr g)
   \<and> (momentum config = None \<longrightarrow>
      init_optimizer config params loss nr g = Inl (AttributeError ''momentum''))
   \<and> (momentum config = Some m \<and> rmsprop_decay config = None \<longrightarrow>
      init_optimizer config params loss nr g = Inl (AttributeError ''rmsprop_decay''))"
  by (auto simp: init_optimizer_def optimizer_table_def Let_def)

theorem momentum_and_decay_use_witness:
  "init_optimizer (example_simple_config\<lparr>momentum := Some (1 / 2), rmsprop_decay := Some (1 / 3)\<rparr>)
       [] (Const 0) 1 None
     = init_optimizer (example_simple_config\<lparr>momentum := Some 0, rmsprop_decay := Some 1\<rparr>)
       [] (Const 0) 1 None
   \<and> init_optimizer (example_simple_config\<lparr>momentum := Some (1 / 2), rmsprop_decay := Some (1 / 3)\<rparr>)
       [] (Const 0) 1 None
     = Inr (Minimize (GradientDescentOptimizer (1 / 1000)) (Const 0) [] None)
   \<and> init_optimizer (example_simple_config\<lparr>optimizer := ''momentum'',
         momentum := Some (1 / 2), rmsprop_decay := Some (1 / 3)\<rparr>) [] (Const 0) 1 None
     = init_optimizer (example_simple_config\<lparr>optimizer := ''momentum'',
         momentum := Some (1 / 2), rmsprop_decay := Some 1\<rparr>) [] (Const 0) 1 None
   \<and> init_optimizer (example_cnn_config\<lparr>momentum := Some (1 / 2), rmsprop_decay := Some (1 / 3)\<rparr>)
       [] (Const 0) 1 None
     = init_optimizer (example_cnn_config\<lparr>momentum := Some 0, rmsprop_decay := Some (1 / 3)\<rparr>)
       [] (Const 0) 1 None
   \<and> init_optimizer (example_simple_config\<lparr>momentum := None\<rparr>) [] (Const 0) 1 None
     = Inl (AttributeError ''momentum'')
   \<and> init_optimizer (example_simple_config\<lparr>rmsprop_decay := None\<rparr>) [] (Const 0) 1 None
     = Inl (AttributeError ''rmsprop_decay'')"
proof -
  have sgd: "optimizer example_simple_config
               \<in> {''adadelta'', ''adagrad'', ''adam'', ''ftrl'', ''sgd''}"
    and mom: "optimizer (example_simple_config\<lparr>optimizer := ''momentum''\<rparr>) = ''momentum''"
    and rms: "optimizer example_cnn_config = ''rmsprop''"
    and no_m: "momentum (example_simple_config\<lparr>momentum := None\<rparr>) = None"
    and no_d: "momentum (example_simple_config\<lparr>rmsprop_decay := None\<rparr>) = Some (9 / 10)
               \<and> rmsprop_decay (example_simple_config\<lparr>rmsprop_decay := None\<rparr>) = None"
    by (simp_all add: example_simple_config_def example_cnn_config_def)
  note a = momentum_and_decay_use [where config = example_simple_config and m = "1 / 2"
      and d = "1 / 3" and m' = 0 and d' = 1 and params = "[]" and loss = "Const 0" and nr = 1
      and g = None]
  note b = momentum_and_decay_use [where config = "example_simple_config\<lparr>optimizer := ''momentum''\<rparr>"
      and m = "1 / 2" and d = "1 / 3" and d' = 1 and params = "[]" and loss = "Const 0"
      and nr = 1 and g = None]
  note c = momentum_and_decay_use [where config = example_cnn_config and m = "1 / 2"
      and d = "1 / 3" and m' = 0 and params = "[]" and loss = "Const 0" and nr = 1 and g = None]
  note d = momentum_and_decay_use [where config = "example_simple_config\<lparr>momentum := None\<rparr>"
      and params = "[]" and loss = "Const 0" and nr = 1 and g = None]
  note e = momentum_and_decay_use [where config = "example_simple_config\<lparr>rmsprop_decay := None\<rparr>"
      and m = "9 / 10" and params = "[]" and loss = "Const 0" and nr = 1 and g = None]
  have 1: "init_optimizer (example_simple_config\<lparr>momentum := Some (1 / 2), rmsprop_decay := Some (1 / 3)\<rparr>)
       [] (Const 0) 1 None
     = init_optimizer (example_simple_config\<lparr>momentum := Some 0, rmsprop_decay := Some 1\<rparr>)
       [] (Const 0) 1 None"
    using a sgd by blast
  have 2: "init_optimizer (example_simple_config\<lparr>momentum := Some (1 / 2), rmsprop_decay := Some (1 / 3)\<rparr>)
       [] (Const 0) 1 None
     = Inr (Minimize (GradientDescentOptimizer (1 / 1000)) (Const 0) [] None)"
    by (simp add: init_optimizer_def optimizer_table_def example_simple_config_def)
  have 3: "init_optimizer (example_simple_config\<lparr>optimizer := ''momentum'',
         momentum := Some (1 / 2), rmsprop_decay := Some (1 / 3)\<rparr>) [] (Const 0) 1 None
     = init_optimizer (example_simple_config\<lparr>optimizer := ''momentum'',
         momentum := Some (1 / 2), rmsprop_decay := Some 1\<rparr>) [] (Const 0) 1 None"
    using b mom by blast
  have 4: "init_optimizer (example_cnn_config\<lparr>momentum := Some (1 / 2), rmsprop_decay := Some (1 / 3)\<rparr>)
       [] (Const 0) 1 None
     = init_optimizer (example_cnn_config\<lparr>momentum := Some 0, rmsprop_decay := Some (1 / 3)\<rparr>)
       [] (Const 0) 1 None"
    using c rms by blast
  have 5: "init_optimizer (example_simple_config\<lparr>momentum := None\<rparr>) [] (Const 0) 1 None
     = Inl (AttributeError ''momentum'')"
    using d no_m by blast
  have 6: "init_optimizer (example_simple_config\<lparr>rmsprop_decay := None\<rparr>) [] (Const 0) 1 None
     = Inl (AttributeError ''rmsprop_decay'')"
    using e no_d by blast
  from 1 2 3 4 5 6 show ?thesis by blast
qed

subsection \<open>The regularisation penalty\<close>

lemma sum_squares_zero:
  "sum_list (map (\<lambda>x. x ^ 2) (concat (replicate n (replicate m (0::real))))) = 0"
  by (induction n) (simp_all add: sum_list_replicate)

lemma l2_loss_Matrix: "l2_loss (Matrix w) = Scalar (half_sum_squares w)"
  by (simp add: l2_loss_def half_sum_squares_def)

lemma half_sum_squares_zero: "half_sum_squares (replicate n (replicate m 0)) = 0"
  by (simp add: half_sum_squares_def sum_squares_zero)


lemma spec_l2_norm_zero: "spec_l2_norm (replicate n (replicate m 0)) = 0"
  by (simp add: spec_l2_norm_def sum_squares_zero)

lemma replicate_singleton_zero: "replicate n [0::real] = replicate n (replicate 1 0)"
  by simp

lemma eval_l2_sum3:
  assumes "store (var_name w1) = Some (Matrix m1)" "store (var_name w2) = Some (Matrix m2)"
    "store (var_name w3) = Some (Matrix m3)"
  shows "eval feed store (l2_sum [w1, w2, w3])
     = Some (Scalar (half_sum_squares m1 + half_sum_squares m2 + half_sum_squares m3))"
  using assms by (simp add: l2_sum_def lift2_def l2_loss_Matrix)


lemma example_simple_store_values:
  "half_sum_squares [1 # replicate 19 0] = 1 / 2"
  "half_sum_squares (replicate 20 (replicate 20 0)) = 0"
  "half_sum_squares (replicate 20 [0]) = 0"
  by (simp_all add: half_sum_squares_def sum_list_replicate sum_squares_zero
      replicate_singleton_zero del: replicate.simps)


lemma scoped_nested: "a \<noteq> [] \<Longrightarrow> scoped (scoped scope a) b = scoped scope (a @ ''/'' @ b)"
  by (simp add: scoped_def)

subsection \<open>The simple variant\<close>

text \<open>
  Claim C8, as stated: the penalty of the simple variant equals the sum of the L2 norms
  of the three weight tensors. For weights whose only non-zero entry is a \<open>1\<close> in the
  first matrix the penalty is \<open>1 / 2\<close>, the sum of the L2 norms is \<open>1\<close>.
\<close>

theorem simple_penalty_counterexample:
  "Option.bind (built_penalty SimpleNetwork example_simple_config [1] 1)
       (eval (\<lambda>n. None) example_simple_store) = Some (Scalar (1 / 2))
   \<and> spec_l2_norm [1 # replicate 19 0] + spec_l2_norm (replicate 20 (replicate 20 0))
       + spec_l2_norm (replicate 20 [0]) = 1"
proof -
  have "built_penalty SimpleNetwork example_simple_config [1] 1
     = Some (l2_sum [get_variable ''hidden1'' None ''w'' [1, 20] (truncated_normal_initializer (1 / 100)) None,
                     get_variable ''hidden2'' None ''w'' [20, 20] (truncated_normal_initializer (1 / 100)) None,
                     get_variable ''output'' None ''w'' [20, 1] (truncated_normal_initializer (1 / 100)) None])"
    by (simp add: built_penalty_def init_params_def SimpleNetwork_init_params_def
        init_layers_def Let_def scoped_def HIDDEN1_SIZE_def HIDDEN2_SIZE_def)
  moreover have "eval (\<lambda>n. None) example_simple_store
       (l2_sum [get_variable ''hidden1'' None ''w'' [1, 20] (truncated_normal_initializer (1 / 100)) None,
                get_variable ''hidden2'' None ''w'' [20, 20] (truncated_normal_initializer (1 / 100)) None,
                get_variable ''output'' None ''w'' [20, 1] (truncated_normal_initializer (1 / 100)) None])
     = Some (Scalar (half_sum_squares [1 # replicate 19 0]
          + half_sum_squares (replicate 20 (replicate 20 0))
          + half_sum_squares (replicate 20 [0])))"
    by (rule eval_l2_sum3) (simp_all add: get_variable_def scoped_def example_simple_store_def)
  moreover have "half_sum_squares [1 # replicate 19 0] = 1 / 2"
    by (simp add: half_sum_squares_def sum_list_replicate)
  moreover have "half_sum_squares (replicate 20 [0]) = 0"
    unfolding replicate_singleton_zero by (rule half_sum_squares_zero)
  moreover have "spec_l2_norm [1 # replicate 19 0] = 1"
    by (simp add: spec_l2_norm_def sum_list_replicate)
  moreover have "spec_l2_norm (replicate 20 [0]) = 0"
    unfolding replicate_singleton_zero by (rule spec_l2_norm_zero)
  ultimately show ?thesis
    by (simp add: half_sum_squares_zero spec_l2_norm_zero)
qed

text \<open>
  Claim C8, amended. For an input shape of rank 1 the parameter builder of the simple
  variant returns three trainable (weight, bias) pairs, named \<open>w\<close> and \<open>b\<close> under the
  scopes \<open>hidden1\<close>, \<open>hidden2\<close> and \<open>output\<close>, of shapes input-size by 20, 20 by 20 and 20
  by action-count; weights start from a truncated normal distribution of standard
  deviation \<open>0.01\<close>, biases from zero. The layer builder applies \<open>tanh\<close> after the first
  and the second affine transform and nothing after the third. Its penalty is the sum
  of \<open>tf.nn.l2_loss\<close> over the three weight tensors only, that is, of half the sum of
  the squared entries of each.
\<close>

theorem simple_network_structure:
  "(length s = 1 \<longrightarrow>
      (\<exists>ps. SimpleNetwork_init_params config s k coll scope dev = Inr ps
         \<and> map var_name ps = map (scoped scope)
             [''hidden1/w'', ''hidden1/b'', ''hidden2/w'', ''hidden2/b'', ''output/w'', ''output/b'']
         \<and> map var_shape ps = [[s ! 0, 20], [20], [20, 20], [20], [20, k], [k]]
         \<and> map var_initializer ps =
             [truncated_normal_initializer (1 / 100), constant_initializer 0,
              truncated_normal_initializer (1 / 100), constant_initializer 0,
              truncated_normal_initializer (1 / 100), constant_initializer 0]
         \<and> map var_trainable ps = replicate 6 True
         \<and> length (param_pairs ps) = 3))
   \<and> SimpleNetwork_init_layers config x [w1, b1, w2, b2, w3, b3] =
       Inr (Add (MatMul (Tanh (Add (MatMul (Tanh (Add (MatMul x (Var w1)) (Var b1))) (Var w2))
                                  (Var b2))) (Var w3)) (Var b3),
            Add (Add (Add (Const 0) (L2Loss (Var w1))) (L2Loss (Var w2))) (L2Loss (Var w3)))
   \<and> (store (var_name w1) = Some (Matrix m1) \<and> store (var_name w2) = Some (Matrix m2)
        \<and> store (var_name w3) = Some (Matrix m3) \<longrightarrow>
       eval feed store
         (Add (Add (Add (Const 0) (L2Loss (Var w1))) (L2Loss (Var w2))) (L2Loss (Var w3)))
       = Some (Scalar (half_sum_squares m1 + half_sum_squares m2 + half_sum_squares m3)))"
proof (intro conjI impI)
  assume "length s = 1"
  then show "\<exists>ps. SimpleNetwork_init_params config s k coll scope dev = Inr ps
         \<and> map var_name ps = map (scoped scope)
             [''hidden1/w'', ''hidden1/b'', ''hidden2/w'', ''hidden2/b'', ''output/w'', ''output/b'']
         \<and> map var_shape ps = [[s ! 0, 20], [20], [20, 20], [20], [20, k], [k]]
         \<and> map var_initializer ps =
             [truncated_normal_initializer (1 / 100), constant_initializer 0,
              truncated_normal_initializer (1 / 100), constant_initializer 0,
              truncated_normal_initializer (1 / 100), constant_initializer 0]
         \<and> map var_trainable ps = replicate 6 True
         \<and> length (param_pairs ps) = 3"
    by (simp add: SimpleNetwork_init_params_def Let_def get_variable_def scoped_nested
        HIDDEN1_SIZE_def HIDDEN2_SIZE_def eval_nat_numeral)
next
  show "SimpleNetwork_init_layers config x [w1, b1, w2, b2, w3, b3] =
       Inr (Add (MatMul (Tanh (Add (MatMul (Tanh (Add (MatMul x (Var w1)) (Var b1))) (Var w2))
                                  (Var b2))) (Var w3)) (Var b3),
            Add (Add (Add (Const 0) (L2Loss (Var w1))) (L2Loss (Var w2))) (L2Loss (Var w3)))"
    by (simp add: Let_def l2_sum_def)
next
  assume "store (var_name w1) = Some (Matrix m1) \<and> store (var_name w2) = Some (Matrix m2)
        \<and> store (var_name w3) = Some (Matrix m3)"
  then show "eval feed store
         (Add (Add (Add (Const 0) (L2Loss (Var w1))) (L2Loss (Var w2))) (L2Loss (Var w3)))
       = Some (Scalar (half_sum_squares m1 + half_sum_squares m2 + half_sum_squares m3))"
    using eval_l2_sum3 [of store w1 m1 w2 m2 w3 m3 feed] by (simp add: l2_sum_def)
qed

theorem simple_network_structure_witness:
  "(\<exists>ps. SimpleNetwork_init_params example_simple_config [4] 2 None [] None = Inr ps
      \<and> map var_name ps =
          [''hidden1/w'', ''hidden1/b'', ''hidden2/w'', ''hidden2/b'', ''output/w'', ''output/b'']
      \<and> map var_shape ps = [[4, 20], [20], [20, 20], [20], [20, 2], [2]]
      \<and> length (param_pairs ps) = 3)
   \<and> eval (\<lambda>n. None) example_simple_store
       (Add (Add (Add (Const 0)
          (L2Loss (Var (get_variable ''hidden1'' None ''w'' [1, 20]
                     (truncated_normal_initializer (1 / 100)) None))))
          (L2Loss (Var (get_variable ''hidden2'' None ''w'' [20, 20]
                     (truncated_normal_initializer (1 / 100)) None))))
          (L2Loss (Var (get_variable ''output'' None ''w'' [20, 1]
                     (truncated_normal_initializer (1 / 100)) None))))
     = Some (Scalar (1 / 2))"
proof -
  let ?w1 = "get_variable ''hidden1'' None ''w'' [1, 20] (truncated_normal_initializer (1 / 100)) None"
  let ?w2 = "get_variable ''hidden2'' None ''w'' [20, 20] (truncated_normal_initializer (1 / 100)) None"
  let ?w3 = "get_variable ''output'' None ''w'' [20, 1] (truncated_normal_initializer (1 / 100)) None"
  have rank: "length [4 :: int] = 1"
    by simp
  have stored: "example_simple_store (var_name ?w1) = Some (Matrix [1 # replicate 19 0])
      \<and> example_simple_store (var_name ?w2) = Some (Matrix (replicate 20 (replicate 20 0)))
      \<and> example_simple_store (var_name ?w3) = Some (Matrix (replicate 20 [0]))"
    by (simp add: example_simple_store_def get_variable_def scoped_def del: replicate.simps)
  note inst = simple_network_structure [where s = "[4]" and k = 2
      and config = example_simple_config and coll = None and scope = "[]" and dev = None
      and store = example_simple_store and feed = "\<lambda>n. None"
      and ?w1.0 = ?w1 and ?w2.0 = ?w2 and ?w3.0 = ?w3
      and ?m1.0 = "[1 # replicate 19 0]" and ?m2.0 = "replicate 20 (replicate 20 0)"
      and ?m3.0 = "replicate 20 [0]" and x = "Const 0" and ?b1.0 = ?w1 and ?b2.0 = ?w2
      and ?b3.0 = ?w3]
  from inst [THEN conjunct1, THEN mp, OF rank] obtain ps where
    built: "SimpleNetwork_init_params example_simple_config [4] 2 None [] None = Inr ps"
    and names: "map var_name ps = map (scoped [])
        [''hidden1/w'', ''hidden1/b'', ''hidden2/w'', ''hidden2/b'', ''output/w'', ''output/b'']"
    and shapes: "map var_shape ps = [[[4] ! 0, 20], [20], [20, 20], [20], [20, 2], [2]]"
    and pairs: "length (param_pairs ps) = 3"
    by (elim exE conjE)
  have params: "\<exists>ps. SimpleNetwork_init_params example_simple_config [4] 2 None [] None = Inr ps
      \<and> map var_name ps =
          [''hidden1/w'', ''hidden1/b'', ''hidden2/w'', ''hidden2/b'', ''output/w'', ''output/b'']
      \<and> map var_shape ps = [[4, 20], [20], [20, 20], [20], [20, 2], [2]]
      \<and> length (param_pairs ps) = 3"
    using built names shapes pairs by (auto simp: scoped_def)
  have "eval (\<lambda>n. None) example_simple_store
         (Add (Add (Add (Const 0) (L2Loss (Var ?w1))) (L2Loss (Var ?w2))) (L2Loss (Var ?w3)))
       = Some (Scalar (half_sum_squares [1 # replicate 19 0]
            + half_sum_squares (replicate 20 (replicate 20 0))
            + half_sum_squares (replicate 20 [0])))"
    by (rule inst [THEN conjunct2, THEN conjunct2, THEN mp, OF stored])
  also have "half_sum_squares [1 # replicate 19 0]
            + half_sum_squares (replicate 20 (replicate 20 0))
            + half_sum_squares (replicate 20 [0]) = 1 / 2"
    unfolding example_simple_store_values by simp
  finally have penalty: "eval (\<lambda>n. None) example_simple_store
         (Add (Add (Add (Const 0) (L2Loss (Var ?w1))) (L2Loss (Var ?w2))) (L2Loss (Var ?w3)))
       = Some (Scalar (1 / 2))" .
  from params penalty show ?thesis
    by (rule conjI)
qed

subsection \<open>The convolutional variant\<close>




subsection \<open>What the training operation minimises over\<close>

text \<open>
  The training operation is built over the online parameters, and no target parameter
  is among them: every target variable lives under the scope \<open>target\<close>, no online
  variable does.
\<close>

lemma online_names_outside_target_scope:
  "init_params c config s k coll [] dev = Inr ps \<Longrightarrow> v \<in> set ps \<Longrightarrow>
     take 7 (var_name v) \<noteq> ''target/''"
  by (cases c)
    (auto simp: init_params_def SimpleNetwork_init_params_def ConvNetwork_init_params_def
          get_variable_def scoped_def Let_def split: if_splits)

lemma init_optimizer_Minimize:
  "init_optimizer config params loss n g = Inr t \<Longrightarrow> \<exists>opt. t = Minimize opt loss params g"
  by (auto simp: init_optimizer_def Let_def split: option.splits)

lemma training_minimizes_online_params_only:
  assumes "create_network config s n r ps w = Inr net"
  shows "set (online_params net) \<inter> set (target_params net) = {}"
proof -
  from build_facts [OF assms]
  obtain c params tps coll dev where
    p: "init_params c config s n None [] ps = Inr params"
    and tp: "init_params c config s n coll ''target'' dev = Inr tps"
    and on: "online_params net = params" and tg: "target_params net = tps"
    by blast
  have names: "map var_name tps = map (\<lambda>v. ''target/'' @ var_name v) params"
    by (rule init_params_names [OF p tp])
  have "v \<notin> set tps" if v: "v \<in> set params" for v
  proof
    assume "v \<in> set tps"
    then have "var_name v \<in> set (map var_name tps)"
      by simp
    then have "var_name v \<in> (\<lambda>u. ''target/'' @ var_name u) ` set params"
      unfolding names by simp
    then have "take 7 (var_name v) = ''target/''"
      by auto
    with online_names_outside_target_scope [OF p v] show False
      by simp
  qed
  then show ?thesis
    by (auto simp: on tg)
qed

end
